theory Spec2Isabelle
  imports Complex_Main "HOL-Library.Word"
begin

unbundle bit_operations_syntax

section \<open>Python values and the outside world\<close>

text \<open>
  The driver (\<^verbatim>\<open>bq25790_driver.py\<close>) talks to the chip through \<^verbatim>\<open>smbus2\<close> and to the
  clock through \<^verbatim>\<open>time\<close>. Both are outside the repository, so they are parameters of the
  model: an environment answers every call, and its answer may depend on everything that
  happened before (the trace of events so far). A call that raises is the answer
  \<open>Inl e\<close>. Python integers are \<open>int\<close>. Python floats are idealised as exact reals:
  every float the driver produces is a quotient of integers, and rounding to binary
  floating point is not modelled.
\<close>

datatype py_exception = PyException string

fun str_of :: "py_exception \<Rightarrow> string" where
  "str_of (PyException m) = m"

datatype pyval =
    PyFloat real
  | PyInt int
  | PyStr string
  | PyBool bool
  | PyDict "(string \<times> pyval) list"

datatype event =
    SMBusOpen int
  | ReadByteData int int
  | WriteByteData int int int
  | Sleep real
  | TimeTime

record env =
  smbus_open :: "event list \<Rightarrow> int \<Rightarrow> py_exception option"
  read_byte_data :: "event list \<Rightarrow> int \<Rightarrow> int \<Rightarrow> py_exception + int"
  write_byte_data :: "event list \<Rightarrow> int \<Rightarrow> int \<Rightarrow> int \<Rightarrow> py_exception option"
  time_time :: "event list \<Rightarrow> real"

text \<open>
  A computation takes the trace so far and returns its result (or the exception it
  raised) with the extended trace. \<open>bind_io\<close> is sequencing: an exception skips the
  rest, as it does in Python.
\<close>

type_synonym 'a io = "event list \<Rightarrow> (py_exception + 'a) \<times> event list"

definition return_io :: "'a \<Rightarrow> 'a io" where
  "return_io x tr = (Inr x, tr)"

definition bind_io :: "'a io \<Rightarrow> ('a \<Rightarrow> 'b io) \<Rightarrow> 'b io" where
  "bind_io m f tr =
     (case m tr of
        (Inl e, tr') \<Rightarrow> (Inl e, tr')
      | (Inr x, tr') \<Rightarrow> f x tr')"

definition bus_read_byte_data :: "env \<Rightarrow> int \<Rightarrow> int \<Rightarrow> int io" where
  "bus_read_byte_data env a r tr = (read_byte_data env tr a r, tr @ [ReadByteData a r])"

definition bus_write_byte_data :: "env \<Rightarrow> int \<Rightarrow> int \<Rightarrow> int \<Rightarrow> unit io" where
  "bus_write_byte_data env a r v tr =
     (case write_byte_data env tr a r v of
        Some e \<Rightarrow> (Inl e, tr @ [WriteByteData a r v])
      | None \<Rightarrow> (Inr (), tr @ [WriteByteData a r v]))"

definition time_sleep :: "real \<Rightarrow> unit io" where
  "time_sleep secs tr = (Inr (), tr @ [Sleep secs])"

definition time_time_io :: "env \<Rightarrow> real io" where
  "time_time_io env tr = (Inr (time_time env tr), tr @ [TimeTime])"

text \<open>
  Python's \<^verbatim>\<open>round(x, ndigits)\<close> on the exact value: to the nearest multiple of
  \<open>10\<^sup>-\<^sup>n\<close>, a tie going to the even neighbour.
\<close>

definition round_half_even :: "real \<Rightarrow> int" where
  "round_half_even x =
     (let f = \<lfloor>x\<rfloor>; d = x - of_int f
      in if d < 1 / 2 then f
         else if 1 / 2 < d then f + 1
         else if even f then f else f + 1)"

definition py_round :: "real \<Rightarrow> nat \<Rightarrow> real" where
  "py_round x ndigits = of_int (round_half_even (x * 10 ^ ndigits)) / 10 ^ ndigits"

section \<open>The driver: class BQ25790\<close>

named_theorems reg_defs

definition REG_CHARGER_STATUS_0 :: int where [reg_defs]: "REG_CHARGER_STATUS_0 = 0x1B"
definition REG_CHARGER_STATUS_1 :: int where [reg_defs]: "REG_CHARGER_STATUS_1 = 0x1C"
definition REG_CHARGER_STATUS_2 :: int where [reg_defs]: "REG_CHARGER_STATUS_2 = 0x1D"
definition REG_FAULT_STATUS_0 :: int where [reg_defs]: "REG_FAULT_STATUS_0 = 0x20"
definition REG_FAULT_STATUS_1 :: int where [reg_defs]: "REG_FAULT_STATUS_1 = 0x21"
definition REG_ADC_CTRL :: int where [reg_defs]: "REG_ADC_CTRL = 0x25"
definition REG_IBUS_ADC :: int where [reg_defs]: "REG_IBUS_ADC = 0x27"
definition REG_IBAT_ADC :: int where [reg_defs]: "REG_IBAT_ADC = 0x29"
definition REG_VBUS_ADC :: int where [reg_defs]: "REG_VBUS_ADC = 0x2B"
definition REG_VBAT_ADC :: int where [reg_defs]: "REG_VBAT_ADC = 0x31"
definition REG_VSYS_ADC :: int where [reg_defs]: "REG_VSYS_ADC = 0x33"
definition REG_TDIE_ADC :: int where [reg_defs]: "REG_TDIE_ADC = 0x37"

text \<open>The object's fields; \<^verbatim>\<open>self.bus\<close> is the handle of the environment.\<close>

record BQ25790 =
  bus_number :: int
  address :: int

definition BQ25790_init :: "env \<Rightarrow> int \<Rightarrow> int \<Rightarrow> BQ25790 io" where
  "BQ25790_init env bus_no addr tr =
     (case smbus_open env tr bus_no of
        Some e \<Rightarrow> (Inl e, tr @ [SMBusOpen bus_no])
      | None \<Rightarrow> (Inr \<lparr>bus_number = bus_no, address = addr\<rparr>, tr @ [SMBusOpen bus_no]))"

definition read_register :: "env \<Rightarrow> BQ25790 \<Rightarrow> int \<Rightarrow> int io" where
  "read_register env self register = bus_read_byte_data env (address self) register"

definition read_register_16bit :: "env \<Rightarrow> BQ25790 \<Rightarrow> int \<Rightarrow> int io" where
  "read_register_16bit env self register =
     bind_io (bus_read_byte_data env (address self) register) (\<lambda>msb.
     bind_io (bus_read_byte_data env (address self) (register + 1)) (\<lambda>lsb.
     return_io (push_bit 8 msb OR lsb)))"

definition write_register :: "env \<Rightarrow> BQ25790 \<Rightarrow> int \<Rightarrow> int \<Rightarrow> unit io" where
  "write_register env self register v = bus_write_byte_data env (address self) register v"

definition enable_adc :: "env \<Rightarrow> BQ25790 \<Rightarrow> unit io" where
  "enable_adc env self =
     bind_io (write_register env self REG_ADC_CTRL 0x80) (\<lambda>_.
     time_sleep 0.1)"

definition get_battery_voltage :: "env \<Rightarrow> BQ25790 \<Rightarrow> real io" where
  "get_battery_voltage env self =
     bind_io (read_register_16bit env self REG_VBAT_ADC) (\<lambda>raw.
     return_io (of_int raw / 1000))"

definition get_battery_current :: "env \<Rightarrow> BQ25790 \<Rightarrow> real io" where
  "get_battery_current env self =
     bind_io (read_register_16bit env self REG_IBAT_ADC) (\<lambda>raw.
     return_io (of_int (if raw > 32767 then raw - 65536 else raw) / 1000))"

definition get_system_voltage :: "env \<Rightarrow> BQ25790 \<Rightarrow> real io" where
  "get_system_voltage env self =
     bind_io (read_register_16bit env self REG_VSYS_ADC) (\<lambda>raw.
     return_io (of_int raw / 1000))"

definition get_bus_voltage :: "env \<Rightarrow> BQ25790 \<Rightarrow> real io" where
  "get_bus_voltage env self =
     bind_io (read_register_16bit env self REG_VBUS_ADC) (\<lambda>raw.
     return_io (of_int raw / 1000))"

definition get_bus_current :: "env \<Rightarrow> BQ25790 \<Rightarrow> real io" where
  "get_bus_current env self =
     bind_io (read_register_16bit env self REG_IBUS_ADC) (\<lambda>raw.
     return_io (of_int raw / 1000))"

definition get_die_temperature :: "env \<Rightarrow> BQ25790 \<Rightarrow> real io" where
  "get_die_temperature env self =
     bind_io (read_register_16bit env self REG_TDIE_ADC) (\<lambda>raw.
     return_io (of_int raw * 0.5 - 40))"

text \<open>
  The two lookup tables of \<^verbatim>\<open>get_charger_status\<close>, and \<^verbatim>\<open>dict.get(key, default)\<close>.
\<close>

definition charge_status_table :: "(int \<times> string) list" where
  "charge_status_table =
     [(0, ''Not Charging''),
      (1, ''Trickle Charge''),
      (2, ''Pre-charge''),
      (3, ''Fast Charge (CC)''),
      (4, ''Taper Charge (CV)''),
      (5, ''Reserved''),
      (6, ''Top-off Timer''),
      (7, ''Charge Termination Done'')]"

definition vbus_status_table :: "(int \<times> string) list" where
  "vbus_status_table =
     [(0, ''No Input''),
      (1, ''USB SDP (500mA)''),
      (2, ''USB CDP (1.5A)''),
      (3, ''USB DCP (3A)''),
      (4, ''Adjustable HV DCP''),
      (5, ''Unknown Adapter''),
      (6, ''Non-Standard Adapter''),
      (7, ''OTG'')]"

definition dict_get :: "('k \<times> 'v) list \<Rightarrow> 'k \<Rightarrow> 'v \<Rightarrow> 'v" where
  "dict_get d k dflt = (case map_of d k of Some v \<Rightarrow> v | None \<Rightarrow> dflt)"

definition get_charger_status :: "env \<Rightarrow> BQ25790 \<Rightarrow> pyval io" where
  "get_charger_status env self =
     bind_io (read_register env self REG_CHARGER_STATUS_0) (\<lambda>status0.
     bind_io (read_register env self REG_CHARGER_STATUS_1) (\<lambda>status1.
     bind_io (read_register env self REG_CHARGER_STATUS_2) (\<lambda>status2.
     let charge_status = drop_bit 5 status1 AND 0x07;
         charge_status_str = dict_get charge_status_table charge_status ''Unknown'';
         vbus_status = drop_bit 5 status0 AND 0x07;
         vbus_status_str = dict_get vbus_status_table vbus_status ''Unknown''
     in return_io (PyDict
          [(''charging'', PyBool (status1 AND 0x10 \<noteq> 0)),
           (''charge_status'', PyStr charge_status_str),
           (''vbus_present'', PyBool (status0 AND 0x80 \<noteq> 0)),
           (''vbus_status'', PyStr vbus_status_str),
           (''battery_present'', PyBool (\<not> (status2 AND 0x08 \<noteq> 0))),
           (''power_good'', PyBool (status0 AND 0x04 \<noteq> 0))]))))"

definition get_fault_status :: "env \<Rightarrow> BQ25790 \<Rightarrow> pyval io" where
  "get_fault_status env self =
     bind_io (read_register env self REG_FAULT_STATUS_0) (\<lambda>fault0.
     bind_io (read_register env self REG_FAULT_STATUS_1) (\<lambda>fault1.
     return_io (PyDict
       [(''vac1_ovp'', PyBool (fault0 AND 0x80 \<noteq> 0)),
        (''vac2_ovp'', PyBool (fault0 AND 0x40 \<noteq> 0)),
        (''conv_ocp'', PyBool (fault0 AND 0x20 \<noteq> 0)),
        (''ibat_reg'', PyBool (fault0 AND 0x10 \<noteq> 0)),
        (''ibus_reg'', PyBool (fault0 AND 0x08 \<noteq> 0)),
        (''vbat_ovp'', PyBool (fault0 AND 0x04 \<noteq> 0)),
        (''vbus_ovp'', PyBool (fault0 AND 0x02 \<noteq> 0)),
        (''vsys_ovp'', PyBool (fault1 AND 0x80 \<noteq> 0)),
        (''tshut'', PyBool (fault1 AND 0x40 \<noteq> 0)),
        (''bat_temp_fault'', PyBool (fault1 AND 0x08 \<noteq> 0))])))"

text \<open>
  \<^verbatim>\<open>get_all_data\<close>: Python evaluates a dict display left to right, so the getters
  run in the order in which they are written in the source.
\<close>

definition get_all_data :: "env \<Rightarrow> BQ25790 \<Rightarrow> pyval io" where
  "get_all_data env self =
     bind_io (enable_adc env self) (\<lambda>_.
     bind_io (get_battery_voltage env self) (\<lambda>bat_v.
     bind_io (get_battery_current env self) (\<lambda>bat_i.
     bind_io (get_battery_voltage env self) (\<lambda>bat_v2.
     bind_io (get_battery_current env self) (\<lambda>bat_i2.
     bind_io (get_system_voltage env self) (\<lambda>sys_v.
     bind_io (get_die_temperature env self) (\<lambda>die_t.
     bind_io (get_bus_voltage env self) (\<lambda>bus_v.
     bind_io (get_bus_current env self) (\<lambda>bus_i.
     bind_io (get_bus_voltage env self) (\<lambda>bus_v2.
     bind_io (get_bus_current env self) (\<lambda>bus_i2.
     bind_io (get_charger_status env self) (\<lambda>status.
     bind_io (get_fault_status env self) (\<lambda>faults.
     bind_io (time_time_io env) (\<lambda>ts.
     return_io (PyDict
       [(''battery'', PyDict
           [(''voltage'', PyFloat (py_round bat_v 3)),
            (''current'', PyFloat (py_round bat_i 3)),
            (''power'', PyFloat (py_round (bat_v2 * bat_i2) 3))]),
        (''system'', PyDict
           [(''voltage'', PyFloat (py_round sys_v 3)),
            (''temperature'', PyFloat (py_round die_t 1))]),
        (''input'', PyDict
           [(''voltage'', PyFloat (py_round bus_v 3)),
            (''current'', PyFloat (py_round bus_i 3)),
            (''power'', PyFloat (py_round (bus_v2 * bus_i2) 3))]),
        (''status'', status),
        (''faults'', faults),
        (''timestamp'', PyFloat ts)])))))))))))))))"

section \<open>The service: monitor.py\<close>

text \<open>
  The module's globals are the fields of the state, next to the trace of the outside
  world. \<^verbatim>\<open>cache\<close> is a dict that is either empty or holds the two keys \<^verbatim>\<open>'data'\<close> and
  \<^verbatim>\<open>'timestamp'\<close>; each key is an optional field. A response is the body given to
  \<^verbatim>\<open>jsonify\<close> with the HTTP status. Calls to \<^verbatim>\<open>logging\<close> have no effect on the globals or
  on the bus and are left out.
\<close>

record cache_dict =
  cache_data :: "pyval option"
  cache_timestamp :: "real option"

record monitor =
  bq_instance :: "BQ25790 option"
  last_error :: "string option"
  cache :: cache_dict
  world :: "event list"

type_synonym response = "pyval \<times> int"

definition cache_timeout :: real where
  "cache_timeout = 1.0"

definition empty_cache :: cache_dict where
  "empty_cache = \<lparr>cache_data = None, cache_timestamp = None\<rparr>"

definition initial_monitor :: monitor where
  "initial_monitor = \<lparr>bq_instance = None, last_error = None, cache = empty_cache, world = []\<rparr>"

definition get_bq_instance :: "env \<Rightarrow> monitor \<Rightarrow> (py_exception + BQ25790) \<times> monitor" where
  "get_bq_instance env s =
     (case bq_instance s of
        Some bq \<Rightarrow> (Inr bq, s)
      | None \<Rightarrow>
          (case BQ25790_init env 1 0x6B (world s) of
             (Inr bq, tr) \<Rightarrow> (Inr bq, s\<lparr>bq_instance := Some bq, last_error := None, world := tr\<rparr>)
           | (Inl e, tr) \<Rightarrow> (Inl e, s\<lparr>last_error := Some (str_of e), world := tr\<rparr>)))"

definition health :: "env \<Rightarrow> monitor \<Rightarrow> response \<times> monitor" where
  "health env s =
     (case get_bq_instance env s of
        (Inr bq, s') \<Rightarrow>
          ((PyDict [(''status'', PyStr ''healthy''),
                    (''service'', PyStr ''battery-monitor''),
                    (''i2c_address'', PyStr ''0x6B'')], 200), s')
      | (Inl e, s') \<Rightarrow>
          ((PyDict [(''status'', PyStr ''unhealthy''),
                    (''error'', PyStr (str_of e))], 503), s'))"

text \<open>
  The body shared by the handlers, \<^verbatim>\<open>with bq_lock: bq = get_bq_instance(); x = bq.method()\<close>,
  as one request runs it: the lock is free when a request running alone reaches it and is
  released when the block is left, also by an exception. The lock itself is modelled
  in the section on concurrent requests.
\<close>

definition with_bq :: "env \<Rightarrow> (BQ25790 \<Rightarrow> 'a io) \<Rightarrow> monitor \<Rightarrow> (py_exception + 'a) \<times> monitor" where
  "with_bq env method s =
     (case get_bq_instance env s of
        (Inl e, s') \<Rightarrow> (Inl e, s')
      | (Inr bq, s') \<Rightarrow>
          (case method bq (world s') of (r, tr) \<Rightarrow> (r, s'\<lparr>world := tr\<rparr>)))"

text \<open>
  \<^verbatim>\<open>get_battery_info\<close> in its three parts: the test of the cache (line 62), the block
  under \<^verbatim>\<open>try\<close> with the update of the cache (lines 65 to 76), and the \<^verbatim>\<open>except\<close> clause.
\<close>

definition cache_hit :: "real \<Rightarrow> cache_dict \<Rightarrow> bool" where
  "cache_hit now c =
     (cache_data c \<noteq> None \<and>
      now - (case cache_timestamp c of Some t \<Rightarrow> t | None \<Rightarrow> 0) < cache_timeout)"

definition error_500 :: "py_exception \<Rightarrow> response" where
  "error_500 e =
     (PyDict [(''error'', PyStr ''Failed to read battery data''),
              (''details'', PyStr (str_of e))], 500)"

definition refresh :: "env \<Rightarrow> real \<Rightarrow> monitor \<Rightarrow> response \<times> monitor" where
  "refresh env now s =
     (case with_bq env (get_all_data env) s of
        (Inr data, s') \<Rightarrow>
          ((data, 200), s'\<lparr>cache := \<lparr>cache_data = Some data, cache_timestamp = Some now\<rparr>\<rparr>)
      | (Inl e, s') \<Rightarrow> (error_500 e, s'))"

definition get_battery_info :: "env \<Rightarrow> monitor \<Rightarrow> response \<times> monitor" where
  "get_battery_info env s =
     (let now = time_time env (world s);
          s1 = s\<lparr>world := world s @ [TimeTime]\<rparr>
      in case cache_data (cache s1) of
           Some data \<Rightarrow>
             if cache_hit now (cache s1) then ((data, 200), s1) else refresh env now s1
         | None \<Rightarrow> refresh env now s1)"

definition get_voltage :: "env \<Rightarrow> monitor \<Rightarrow> response \<times> monitor" where
  "get_voltage env s =
     (case with_bq env (get_battery_voltage env) s of
        (Inr voltage, s') \<Rightarrow>
          ((PyDict [(''voltage'', PyFloat (py_round voltage 3)),
                    (''unit'', PyStr ''V'')], 200), s')
      | (Inl e, s') \<Rightarrow> ((PyDict [(''error'', PyStr (str_of e))], 500), s'))"

definition get_current :: "env \<Rightarrow> monitor \<Rightarrow> response \<times> monitor" where
  "get_current env s =
     (case with_bq env (get_battery_current env) s of
        (Inr current, s') \<Rightarrow>
          ((PyDict [(''current'', PyFloat (py_round current 3)),
                    (''unit'', PyStr ''A''),
                    (''note'', PyStr ''Positive = charging, Negative = discharging'')], 200), s')
      | (Inl e, s') \<Rightarrow> ((PyDict [(''error'', PyStr (str_of e))], 500), s'))"

definition get_temperature :: "env \<Rightarrow> monitor \<Rightarrow> response \<times> monitor" where
  "get_temperature env s =
     (case with_bq env (get_die_temperature env) s of
        (Inr temp, s') \<Rightarrow>
          ((PyDict [(''temperature'', PyFloat (py_round temp 1)),
                    (''unit'', PyStr [CHR 0xC2, CHR 0xB0, CHR ''C''])], 200), s')
      | (Inl e, s') \<Rightarrow> ((PyDict [(''error'', PyStr (str_of e))], 500), s'))"

section \<open>Observations and concrete buses\<close>

text \<open>Subscripting a dict value, \<^verbatim>\<open>d[k]\<close>.\<close>

fun py_get :: "pyval \<Rightarrow> string \<Rightarrow> pyval option" where
  "py_get (PyDict d) k = map_of d k"
| "py_get _ k = None"

text \<open>
  A capture is counted by the write that starts it: \<^verbatim>\<open>0x80\<close> to \<^verbatim>\<open>REG_ADC_CTRL\<close>, which
  only \<^verbatim>\<open>enable_adc\<close> issues. \<open>registers_read\<close> lists the registers whose first byte
  was read, in order.
\<close>

fun is_adc_enable :: "event \<Rightarrow> bool" where
  "is_adc_enable (WriteByteData a r v) = (r = REG_ADC_CTRL \<and> v = 0x80)"
| "is_adc_enable _ = False"

definition captures :: "event list \<Rightarrow> nat" where
  "captures tr = length (filter is_adc_enable tr)"




text \<open>
  A bus on which nothing fails: register \<open>r\<close> always reads \<open>regs r\<close>, writes are accepted
  and the clock shows \<open>0\<close>. \<open>regs_of\<close> gives the contents as a list, \<open>0\<close> elsewhere.
\<close>

definition regs_of :: "(int \<times> int) list \<Rightarrow> int \<Rightarrow> int" where
  "regs_of contents r = dict_get contents r 0"

definition register_bus :: "(int \<Rightarrow> int) \<Rightarrow> env" where
  "register_bus regs =
     \<lparr>smbus_open = (\<lambda>tr n. None),
      read_byte_data = (\<lambda>tr a r. Inr (regs r)),
      write_byte_data = (\<lambda>tr a r v. None),
      time_time = (\<lambda>tr. 0)\<rparr>"


definition bq0 :: BQ25790 where
  "bq0 = \<lparr>bus_number = 1, address = 0x6B\<rparr>"

text \<open>A bus on which every read raises, as when the chip does not answer.\<close>

definition dead_bus :: env where
  "dead_bus =
     \<lparr>smbus_open = (\<lambda>tr n. None),
      read_byte_data = (\<lambda>tr a r. Inl (PyException ''[Errno 121] Remote I/O error'')),
      write_byte_data = (\<lambda>tr a r v. None),
      time_time = (\<lambda>tr. 0)\<rparr>"

text \<open>
  Clocks: \<open>scripted_clock\<close> answers the calls of \<^verbatim>\<open>time.time()\<close> with the readings of a
  list, one after the other (and \<open>0\<close> when the list is used up); \<open>with_clock\<close> puts a
  clock into an environment.
\<close>

fun is_time_call :: "event \<Rightarrow> bool" where
  "is_time_call TimeTime = True"
| "is_time_call _ = False"

definition scripted_clock :: "real list \<Rightarrow> event list \<Rightarrow> real" where
  "scripted_clock readings tr =
     (case drop (length (filter is_time_call tr)) readings of [] \<Rightarrow> 0 | t # _ \<Rightarrow> t)"

definition with_clock :: "(event list \<Rightarrow> real) \<Rightarrow> env \<Rightarrow> env" where
  "with_clock clock env = env\<lparr>time_time := clock\<rparr>"

text \<open>
  The events of one capture that meets no failure, on the device at address \<open>a\<close>, in the
  order in which \<^verbatim>\<open>get_all_data\<close> calls the driver; \<open>read16\<close> is the pair of byte reads of
  one 16-bit register.
\<close>

definition read16 :: "int \<Rightarrow> int \<Rightarrow> event list" where
  "read16 a r = [ReadByteData a r, ReadByteData a (r + 1)]"

definition capture_events :: "int \<Rightarrow> event list" where
  "capture_events a =
     [WriteByteData a REG_ADC_CTRL 0x80, Sleep 0.1] @
     read16 a REG_VBAT_ADC @ read16 a REG_IBAT_ADC @
     read16 a REG_VBAT_ADC @ read16 a REG_IBAT_ADC @
     read16 a REG_VSYS_ADC @ read16 a REG_TDIE_ADC @
     read16 a REG_VBUS_ADC @ read16 a REG_IBUS_ADC @
     read16 a REG_VBUS_ADC @ read16 a REG_IBUS_ADC @
     [ReadByteData a REG_CHARGER_STATUS_0, ReadByteData a REG_CHARGER_STATUS_1,
      ReadByteData a REG_CHARGER_STATUS_2,
      ReadByteData a REG_FAULT_STATUS_0, ReadByteData a REG_FAULT_STATUS_1,
      TimeTime]"

text \<open>
  Sample register contents: 4.000 V and -0.250 A at the battery, 3.900 V system voltage,
  25.0 degrees, 5.000 V and 0.500 A at the input, fast charge, no fault; and the snapshot
  they decode to, with the battery power and the timestamp left open. \<open>drifted_regs\<close>
  are the same contents after the battery voltage has fallen to 3.000 V.
\<close>

definition sample_regs :: "int \<Rightarrow> int" where
  "sample_regs = regs_of
     [(0x31, 0x0F), (0x32, 0xA0), (0x29, 0xFF), (0x2A, 0x06),
      (0x33, 0x0F), (0x34, 0x3C), (0x37, 0x00), (0x38, 0x82),
      (0x2B, 0x13), (0x2C, 0x88), (0x27, 0x01), (0x28, 0xF4),
      (0x1B, 0x84), (0x1C, 0x70), (0x1D, 0x00), (0x20, 0x00), (0x21, 0x00)]"

definition sample_snapshot :: "real \<Rightarrow> real \<Rightarrow> pyval" where
  "sample_snapshot battery_power ts = PyDict
     [(''battery'', PyDict
         [(''voltage'', PyFloat 4.0),
          (''current'', PyFloat (- 0.25)),
          (''power'', PyFloat battery_power)]),
      (''system'', PyDict
         [(''voltage'', PyFloat 3.9),
          (''temperature'', PyFloat 25.0)]),
      (''input'', PyDict
         [(''voltage'', PyFloat 5.0),
          (''current'', PyFloat 0.5),
          (''power'', PyFloat 2.5)]),
      (''status'', PyDict
         [(''charging'', PyBool True),
          (''charge_status'', PyStr ''Fast Charge (CC)''),
          (''vbus_present'', PyBool True),
          (''vbus_status'', PyStr ''Adjustable HV DCP''),
          (''battery_present'', PyBool True),
          (''power_good'', PyBool True)]),
      (''faults'', PyDict
         [(''vac1_ovp'', PyBool False),
          (''vac2_ovp'', PyBool False),
          (''conv_ocp'', PyBool False),
          (''ibat_reg'', PyBool False),
          (''ibus_reg'', PyBool False),
          (''vbat_ovp'', PyBool False),
          (''vbus_ovp'', PyBool False),
          (''vsys_ovp'', PyBool False),
          (''tshut'', PyBool False),
          (''bat_temp_fault'', PyBool False)]),
      (''timestamp'', PyFloat ts)]"


text \<open>A service whose cache holds a snapshot taken at time 10.\<close>

definition stale_monitor :: monitor where
  "stale_monitor =
     \<lparr>bq_instance = Some bq0, last_error = None,
      cache = \<lparr>cache_data = Some (sample_snapshot (- 1.0) 9.9), cache_timestamp = Some 10\<rparr>,
      world = []\<rparr>"


text \<open>
  What the service does to the outside world apart from reading the clock: the bus
  operations and the settling delay.
\<close>

definition device_events :: "event list \<Rightarrow> event list" where
  "device_events tr = filter (\<lambda>e. \<not> is_time_call e) tr"


section \<open>Concurrent requests to the battery endpoint\<close>

text \<open>
  Flask serves each request in a thread of its own. A request running \<^verbatim>\<open>get_battery_info\<close>
  is at one of these points: not started; past the test of the cache, which missed at time
  \<open>now\<close>, and waiting for \<^verbatim>\<open>bq_lock\<close>; inside \<^verbatim>\<open>with bq_lock\<close>, before or after the two
  statements of the block; past the block, with the data or the exception; done, with its
  response. The value \<open>now\<close> and the result of the block are the request's local
  variables. The globals of the module and the outside world are shared.
\<close>

datatype pc =
    Idle
  | WaitLock real
  | InLock real
  | Captured real "py_exception + pyval"
  | Released real "py_exception + pyval"
  | Done response

record system =
  mon :: monitor
  bq_lock :: "nat option"
  pcs :: "nat \<Rightarrow> pc"

definition idle_system :: "monitor \<Rightarrow> system" where
  "idle_system m = \<lparr>mon = m, bq_lock = None, pcs = (\<lambda>i. Idle)\<rparr>"

text \<open>
  One step of request \<open>i\<close>. Taking \<^verbatim>\<open>bq_lock\<close> is possible only when nobody holds it: the
  request blocks otherwise, which is the result \<open>None\<close> (as it is for a request that is
  done). The test of the cache, the block (\<open>with_bq\<close> of \<^verbatim>\<open>get_all_data\<close>) and the update
  of the cache are those of the handler for one request; leaving the block releases
  the lock whether or not the block raised. A schedule is the list of the requests that
  take the next step, in order.
\<close>

definition step :: "env \<Rightarrow> nat \<Rightarrow> system \<Rightarrow> system option" where
  "step env i sys =
     (case pcs sys i of
        Idle \<Rightarrow>
          (let now = time_time env (world (mon sys));
               m1 = (mon sys)\<lparr>world := world (mon sys) @ [TimeTime]\<rparr>
           in case cache_data (cache m1) of
                Some data \<Rightarrow>
                  if cache_hit now (cache m1)
                  then Some (sys\<lparr>mon := m1, pcs := (pcs sys)(i := Done (data, 200))\<rparr>)
                  else Some (sys\<lparr>mon := m1, pcs := (pcs sys)(i := WaitLock now)\<rparr>)
              | None \<Rightarrow> Some (sys\<lparr>mon := m1, pcs := (pcs sys)(i := WaitLock now)\<rparr>))
      | WaitLock now \<Rightarrow>
          (case bq_lock sys of
             None \<Rightarrow> Some (sys\<lparr>bq_lock := Some i, pcs := (pcs sys)(i := InLock now)\<rparr>)
           | Some j \<Rightarrow> None)
      | InLock now \<Rightarrow>
          (case with_bq env (get_all_data env) (mon sys) of
             (r, m') \<Rightarrow> Some (sys\<lparr>mon := m', pcs := (pcs sys)(i := Captured now r)\<rparr>))
      | Captured now r \<Rightarrow>
          Some (sys\<lparr>bq_lock := None, pcs := (pcs sys)(i := Released now r)\<rparr>)
      | Released now r \<Rightarrow>
          (case r of
             Inr data \<Rightarrow>
               Some (sys\<lparr>mon := (mon sys)\<lparr>cache :=
                             \<lparr>cache_data = Some data, cache_timestamp = Some now\<rparr>\<rparr>,
                          pcs := (pcs sys)(i := Done (data, 200))\<rparr>)
           | Inl e \<Rightarrow> Some (sys\<lparr>pcs := (pcs sys)(i := Done (error_500 e))\<rparr>))
      | Done resp \<Rightarrow> None)"

fun run :: "env \<Rightarrow> nat list \<Rightarrow> system \<Rightarrow> system option" where
  "run env [] sys = Some sys"
| "run env (i # sched) sys =
     (case step env i sys of None \<Rightarrow> None | Some sys' \<Rightarrow> run env sched sys')"

text \<open>A request is inside the block from taking the lock until releasing it.\<close>

fun holding :: "pc \<Rightarrow> bool" where
  "holding (InLock now) = True"
| "holding (Captured now r) = True"
| "holding _ = False"

definition lock_inv :: "system \<Rightarrow> bool" where
  "lock_inv sys = (\<forall>i. holding (pcs sys i) = (bq_lock sys = Some i))"

definition capture_count :: "system \<Rightarrow> nat" where
  "capture_count sys = captures (world (mon sys))"

definition pc_of :: "nat \<Rightarrow> system \<Rightarrow> pc" where
  "pc_of i sys = pcs sys i"

definition cache_of :: "system \<Rightarrow> cache_dict" where
  "cache_of sys = cache (mon sys)"

text \<open>
  A bus that answers with the sample registers, and a clock that reads 0 s and 0.05 s for
  two requests and 0.2 s and 0.4 s for the timestamps of two captures.
\<close>

definition burst_env :: env where
  "burst_env = with_clock (scripted_clock [0, 0.05, 0.2, 0.4]) (register_bus sample_regs)"

section \<open>Basic facts about sequencing\<close>

lemma bind_io_Inr:
  "m tr = (Inr x, tr') \<Longrightarrow> bind_io m f tr = f x tr'"
  by (simp add: bind_io_def)

lemma bind_io_Inl:
  "m tr = (Inl e, tr') \<Longrightarrow> bind_io m f tr = (Inl e, tr')"
  by (simp add: bind_io_def)


lemma read_register_eq:
  "read_register env self r tr =
     (read_byte_data env tr (address self) r, tr @ [ReadByteData (address self) r])"
  by (simp add: read_register_def bus_read_byte_data_def)

lemma and_mask_bit:
  fixes x :: int
  shows "(x AND 0x80 \<noteq> 0) = bit x 7" "(x AND 0x40 \<noteq> 0) = bit x 6"
    "(x AND 0x20 \<noteq> 0) = bit x 5" "(x AND 0x10 \<noteq> 0) = bit x 4"
    "(x AND 0x08 \<noteq> 0) = bit x 3" "(x AND 0x04 \<noteq> 0) = bit x 2"
    "(x AND 0x02 \<noteq> 0) = bit x 1"
  using bit_iff_and_push_bit_not_eq_0[of x 7] bit_iff_and_push_bit_not_eq_0[of x 6]
    bit_iff_and_push_bit_not_eq_0[of x 5] bit_iff_and_push_bit_not_eq_0[of x 4]
    bit_iff_and_push_bit_not_eq_0[of x 3] bit_iff_and_push_bit_not_eq_0[of x 2]
    bit_iff_and_push_bit_not_eq_0[of x 1]
  by simp_all

lemma sint16:
  assumes "0 \<le> raw" "raw \<le> 65535"
  shows "sint (word_of_int raw :: 16 word) = (if raw > 32767 then raw - 65536 else raw)"
proof -
  have u: "uint (word_of_int raw :: 16 word) = raw"
    using assms by (simp add: uint_word_of_int_eq take_bit_eq_mod)
  have "sint (word_of_int raw :: 16 word) = (raw + 32768) mod 65536 - 32768"
    by (simp add: sint_uint signed_take_bit_eq_take_bit_shift take_bit_eq_mod u)
  also have "\<dots> = (if raw > 32767 then raw - 65536 else raw)"
  proof (cases "raw > 32767")
    case True
    have "raw + 32768 = (raw - 32768) + 65536" by arith
    then have "(raw + 32768) mod 65536 = ((raw - 32768) + 65536) mod 65536" by (rule arg_cong)
    also have "\<dots> = (raw - 32768) mod 65536" by (simp only: mod_add_self2)
    also have "\<dots> = raw - 32768" using True assms by simp
    finally show ?thesis using True by simp
  next
    case False
    then show ?thesis using assms by simp
  qed
  finally show ?thesis .
qed

lemma drop5_and7: "drop_bit 5 (s::int) AND 7 = take_bit 3 (drop_bit 5 s)"
  by (simp add: take_bit_eq_mask mask_eq_exp_minus_1)

lemma three_bits_cases:
  fixes k :: int
  assumes "k = take_bit 3 x"
  shows "k = 0 \<or> k = 1 \<or> k = 2 \<or> k = 3 \<or> k = 4 \<or> k = 5 \<or> k = 6 \<or> k = 7"
proof -
  have "0 \<le> k" "k < 8" using assms by (simp_all add: take_bit_eq_mod)
  then show ?thesis by arith
qed

section \<open>Decoding the charge phase\<close>

lemma get_charger_status_reads:
  assumes "read_byte_data env tr (address self) 0x1B = Inr status0"
      and "read_byte_data env (tr @ [ReadByteData (address self) 0x1B]) (address self) 0x1C = Inr status1"
      and "read_byte_data env (tr @ [ReadByteData (address self) 0x1B, ReadByteData (address self) 0x1C])
             (address self) 0x1D = Inr status2"
  shows "get_charger_status env self tr =
     (Inr (PyDict
          [(''charging'', PyBool (status1 AND 0x10 \<noteq> 0)),
           (''charge_status'', PyStr (dict_get charge_status_table (take_bit 3 (drop_bit 5 status1)) ''Unknown'')),
           (''vbus_present'', PyBool (status0 AND 0x80 \<noteq> 0)),
           (''vbus_status'', PyStr (dict_get vbus_status_table (take_bit 3 (drop_bit 5 status0)) ''Unknown'')),
           (''battery_present'', PyBool (\<not> (status2 AND 0x08 \<noteq> 0))),
           (''power_good'', PyBool (status0 AND 0x04 \<noteq> 0))]),
      tr @ [ReadByteData (address self) 0x1B, ReadByteData (address self) 0x1C, ReadByteData (address self) 0x1D])"
  using assms
  by (simp add: get_charger_status_def bind_io_def read_register_eq return_io_def reg_defs Let_def
       flip: drop5_and7)

lemma charge_name:
  "dict_get charge_status_table (take_bit 3 x) ''Unknown'' =
     [''Not Charging'', ''Trickle Charge'', ''Pre-charge'', ''Fast Charge (CC)'',
      ''Taper Charge (CV)'', ''Reserved'', ''Top-off Timer'', ''Charge Termination Done'']
     ! nat (take_bit 3 x)"
  using three_bits_cases[OF refl, of x]
  by (auto simp: dict_get_def charge_status_table_def)

text \<open>
  Claim C1, as the code has it: \<^verbatim>\<open>get_charger_status\<close> takes the charge phase from bits
  [7:5] of the byte read from \<^verbatim>\<open>REG_CHARGER_STATUS_1\<close> (a shift by 5, then a mask of three
  bits), not from bits [6:4]. Whatever the byte, the phase is one of the eight names of the
  table, in the table's order, and never the fallback \<^verbatim>\<open>"Unknown"\<close>; a byte whose bits
  [7:5] are 3, such as \<^verbatim>\<open>0x60\<close>, gives \<^verbatim>\<open>"Fast Charge (CC)"\<close>.
\<close>

theorem charge_phase_bits_7_5:
  assumes "read_byte_data env tr (address self) 0x1B = Inr status0"
      and "read_byte_data env (tr @ [ReadByteData (address self) 0x1B]) (address self) 0x1C = Inr status1"
      and "read_byte_data env (tr @ [ReadByteData (address self) 0x1B, ReadByteData (address self) 0x1C])
             (address self) 0x1D = Inr status2"
  shows "\<exists>d. fst (get_charger_status env self tr) = Inr d \<and>
           py_get d ''charge_status'' = Some (PyStr
             ([''Not Charging'', ''Trickle Charge'', ''Pre-charge'', ''Fast Charge (CC)'',
               ''Taper Charge (CV)'', ''Reserved'', ''Top-off Timer'', ''Charge Termination Done'']
              ! nat (take_bit 3 (drop_bit 5 status1)))) \<and>
           (take_bit 3 (drop_bit 5 status1) = 3 \<longrightarrow>
              py_get d ''charge_status'' = Some (PyStr ''Fast Charge (CC)''))"
  by (auto simp add: get_charger_status_reads[OF assms] charge_name)

theorem charge_phase_bits_7_5_witness:
  "take_bit 3 (drop_bit 5 (0x60::int)) = 3 \<and>
   (\<exists>d. fst (get_charger_status (register_bus (regs_of [(0x1C, 0x60)])) bq0 []) = Inr d \<and>
        py_get d ''charge_status'' = Some (PyStr ''Fast Charge (CC)''))"
proof -
  let ?env = "register_bus (regs_of [(0x1C, 0x60)])"
  have h0: "read_byte_data ?env [] (address bq0) 0x1B = Inr 0"
    by (simp add: register_bus_def regs_of_def dict_get_def)
  have h1: "read_byte_data ?env ([] @ [ReadByteData (address bq0) 0x1B]) (address bq0) 0x1C = Inr 0x60"
    by (simp add: register_bus_def regs_of_def dict_get_def)
  have h2: "read_byte_data ?env ([] @ [ReadByteData (address bq0) 0x1B, ReadByteData (address bq0) 0x1C])
       (address bq0) 0x1D = Inr 0"
    by (simp add: register_bus_def regs_of_def dict_get_def)
  have t: "take_bit 3 (drop_bit 5 (0x60::int)) = 3" by simp
  from charge_phase_bits_7_5[OF h0 h1 h2] t show ?thesis by auto
qed

text \<open>
  The claim as it was written fails: bits [6:4] of \<^verbatim>\<open>0x30\<close> are 3, but the phase reported
  for \<^verbatim>\<open>status1 = 0x30\<close> is \<^verbatim>\<open>"Trickle Charge"\<close>, since bits [7:5] of \<^verbatim>\<open>0x30\<close> are 1.
\<close>

theorem charge_phase_bits_6_4_counterexample:
  "take_bit 3 (drop_bit 4 (0x30::int)) = 3 \<and>
   fst (get_charger_status (register_bus (regs_of [(0x1C, 0x30)])) bq0 []) =
     Inr (PyDict
          [(''charging'', PyBool True),
           (''charge_status'', PyStr ''Trickle Charge''),
           (''vbus_present'', PyBool False),
           (''vbus_status'', PyStr ''No Input''),
           (''battery_present'', PyBool True),
           (''power_good'', PyBool False)])"
  by (simp add: get_charger_status_def bind_io_def read_register_eq return_io_def reg_defs
      register_bus_def regs_of_def bq0_def dict_get_def charge_status_table_def vbus_status_table_def)

section \<open>Decoding the battery current\<close>

lemma get_battery_current_of_raw:
  assumes "read_register_16bit env self REG_IBAT_ADC tr = (Inr raw, tr')"
  shows "get_battery_current env self tr =
           (Inr (of_int (if raw > 32767 then raw - 65536 else raw) / 1000), tr')"
  using assms by (simp add: get_battery_current_def bind_io_def return_io_def)

lemma read_register_16bit_register_bus:
  "read_register_16bit (register_bus regs) self r tr =
     (Inr (push_bit 8 (regs r) OR regs (r + 1)),
      tr @ [ReadByteData (address self) r, ReadByteData (address self) (r + 1)])"
  by (simp add: read_register_16bit_def bind_io_def bus_read_byte_data_def return_io_def
      register_bus_def)

text \<open>
  Claim C2: for every raw value in [0, 65535] read from \<^verbatim>\<open>REG_IBAT_ADC\<close>,
  \<^verbatim>\<open>get_battery_current\<close> returns the value of the raw word as a 16-bit two's-complement
  integer, scaled by 0.001; so 0 gives 0.0, 65535 gives -0.001, 32768 gives -32.768 and
  32767 gives 32.767.
\<close>

theorem get_battery_current_twos_complement:
  assumes "read_register_16bit env self REG_IBAT_ADC tr = (Inr raw, tr')"
      and "0 \<le> raw" and "raw \<le> 65535"
  shows "get_battery_current env self tr =
           (Inr (of_int (sint (word_of_int raw :: 16 word)) * 0.001), tr') \<and>
         (raw = 0 \<longrightarrow> fst (get_battery_current env self tr) = Inr 0.0) \<and>
         (raw = 65535 \<longrightarrow> fst (get_battery_current env self tr) = Inr (- 0.001)) \<and>
         (raw = 32768 \<longrightarrow> fst (get_battery_current env self tr) = Inr (- 32.768)) \<and>
         (raw = 32767 \<longrightarrow> fst (get_battery_current env self tr) = Inr 32.767)"
  using assms(2,3)
  by (simp add: get_battery_current_of_raw[OF assms(1)] sint16)

theorem get_battery_current_twos_complement_witness:
  "fst (get_battery_current (register_bus (regs_of [(0x29, 0x00), (0x2A, 0x00)])) bq0 []) = Inr 0.0 \<and>
   fst (get_battery_current (register_bus (regs_of [(0x29, 0xFF), (0x2A, 0xFF)])) bq0 []) = Inr (- 0.001) \<and>
   fst (get_battery_current (register_bus (regs_of [(0x29, 0x80), (0x2A, 0x00)])) bq0 []) = Inr (- 32.768) \<and>
   fst (get_battery_current (register_bus (regs_of [(0x29, 0x7F), (0x2A, 0xFF)])) bq0 []) = Inr 32.767"
proof -
  have r1: "read_register_16bit (register_bus (regs_of [(0x29, 0x00), (0x2A, 0x00)])) bq0 REG_IBAT_ADC []
      = (Inr 0, [ReadByteData 0x6B 0x29, ReadByteData 0x6B 0x2A])"
    by (simp add: read_register_16bit_register_bus reg_defs regs_of_def dict_get_def bq0_def)
  have r2: "read_register_16bit (register_bus (regs_of [(0x29, 0xFF), (0x2A, 0xFF)])) bq0 REG_IBAT_ADC []
      = (Inr 65535, [ReadByteData 0x6B 0x29, ReadByteData 0x6B 0x2A])"
    by (simp add: read_register_16bit_register_bus reg_defs regs_of_def dict_get_def bq0_def)
  have r3: "read_register_16bit (register_bus (regs_of [(0x29, 0x80), (0x2A, 0x00)])) bq0 REG_IBAT_ADC []
      = (Inr 32768, [ReadByteData 0x6B 0x29, ReadByteData 0x6B 0x2A])"
    by (simp add: read_register_16bit_register_bus reg_defs regs_of_def dict_get_def bq0_def)
  have r4: "read_register_16bit (register_bus (regs_of [(0x29, 0x7F), (0x2A, 0xFF)])) bq0 REG_IBAT_ADC []
      = (Inr 32767, [ReadByteData 0x6B 0x29, ReadByteData 0x6B 0x2A])"
    by (simp add: read_register_16bit_register_bus reg_defs regs_of_def dict_get_def bq0_def)
  show ?thesis
    using get_battery_current_twos_complement[OF r1] get_battery_current_twos_complement[OF r2]
      get_battery_current_twos_complement[OF r3] get_battery_current_twos_complement[OF r4]
    by simp
qed

section \<open>Decoding the fault flags\<close>

text \<open>
  Claim C9: each of the ten flags of \<^verbatim>\<open>get_fault_status\<close> is one fixed bit of one of the
  two fault bytes: bits 7 to 1 of \<^verbatim>\<open>fault0\<close> for the first seven flags, bits 7, 6 and 3 of
  \<^verbatim>\<open>fault1\<close> for the last three. For \<^verbatim>\<open>fault0 = 0x82\<close> and \<^verbatim>\<open>fault1 = 0x00\<close> exactly
  \<^verbatim>\<open>vac1_ovp\<close> and \<^verbatim>\<open>vbus_ovp\<close> are set.
\<close>

theorem get_fault_status_masks:
  assumes "read_byte_data env tr (address self) 0x20 = Inr fault0"
      and "read_byte_data env (tr @ [ReadByteData (address self) 0x20]) (address self) 0x21 = Inr fault1"
  shows "fst (get_fault_status env self tr) = Inr (PyDict
           [(''vac1_ovp'', PyBool (bit fault0 7)),
            (''vac2_ovp'', PyBool (bit fault0 6)),
            (''conv_ocp'', PyBool (bit fault0 5)),
            (''ibat_reg'', PyBool (bit fault0 4)),
            (''ibus_reg'', PyBool (bit fault0 3)),
            (''vbat_ovp'', PyBool (bit fault0 2)),
            (''vbus_ovp'', PyBool (bit fault0 1)),
            (''vsys_ovp'', PyBool (bit fault1 7)),
            (''tshut'', PyBool (bit fault1 6)),
            (''bat_temp_fault'', PyBool (bit fault1 3))]) \<and>
         (fault0 = 0x82 \<and> fault1 = 0x00 \<longrightarrow>
            fst (get_fault_status env self tr) = Inr (PyDict
              [(''vac1_ovp'', PyBool True),
               (''vac2_ovp'', PyBool False),
               (''conv_ocp'', PyBool False),
               (''ibat_reg'', PyBool False),
               (''ibus_reg'', PyBool False),
               (''vbat_ovp'', PyBool False),
               (''vbus_ovp'', PyBool True),
               (''vsys_ovp'', PyBool False),
               (''tshut'', PyBool False),
               (''bat_temp_fault'', PyBool False)]))"
  using assms
  by (simp add: get_fault_status_def bind_io_def read_register_eq return_io_def reg_defs
      and_mask_bit)

theorem get_fault_status_masks_witness:
  "fst (get_fault_status (register_bus (regs_of [(0x20, 0x82), (0x21, 0x00)])) bq0 []) =
     Inr (PyDict
       [(''vac1_ovp'', PyBool True),
        (''vac2_ovp'', PyBool False),
        (''conv_ocp'', PyBool False),
        (''ibat_reg'', PyBool False),
        (''ibus_reg'', PyBool False),
        (''vbat_ovp'', PyBool False),
        (''vbus_ovp'', PyBool True),
        (''vsys_ovp'', PyBool False),
        (''tshut'', PyBool False),
        (''bat_temp_fault'', PyBool False)])"
proof -
  let ?env = "register_bus (regs_of [(0x20, 0x82), (0x21, 0x00)])"
  have h0: "read_byte_data ?env [] (address bq0) 0x20 = Inr 0x82"
    by (simp add: register_bus_def regs_of_def dict_get_def)
  have h1: "read_byte_data ?env ([] @ [ReadByteData (address bq0) 0x20]) (address bq0) 0x21 = Inr 0x00"
    by (simp add: register_bus_def regs_of_def dict_get_def)
  show ?thesis
    using get_fault_status_masks[OF h0 h1] by simp
qed

section \<open>Concrete runs\<close>

lemmas eval_defs = get_all_data_def enable_adc_def write_register_def bus_write_byte_data_def
  time_sleep_def get_battery_voltage_def get_battery_current_def get_system_voltage_def
  get_bus_voltage_def get_bus_current_def get_die_temperature_def get_charger_status_def
  get_fault_status_def read_register_def read_register_16bit_def bus_read_byte_data_def
  bind_io_def return_io_def time_time_io_def dict_get_def charge_status_table_def
  vbus_status_table_def py_round_def round_half_even_def reg_defs


lemma sample_run_at:
  "get_all_data (with_clock clock (register_bus sample_regs)) bq0 tr =
     (Inr (sample_snapshot (- 1.0) (clock (tr @ butlast (capture_events 0x6B)))),
      tr @ capture_events 0x6B)"
  by (simp add: eval_defs register_bus_def with_clock_def sample_regs_def regs_of_def bq0_def
      sample_snapshot_def capture_events_def read16_def)

lemma dead_capture:
  "get_all_data (with_clock clock dead_bus) bq0 tr =
     (Inl (PyException ''[Errno 121] Remote I/O error''),
      tr @ [WriteByteData 0x6B 0x25 0x80, Sleep 0.1, ReadByteData 0x6B 0x31])"
  by (simp add: eval_defs dead_bus_def with_clock_def bq0_def)

section \<open>Counting captures\<close>

lemma captures_append [simp]: "captures (xs @ ys) = captures xs + captures ys"
  by (simp add: captures_def)

lemma captures_Nil [simp]: "captures [] = 0"
  by (simp add: captures_def)

lemma captures_Cons [simp]: "captures (e # tr) = (if is_adc_enable e then 1 else 0) + captures tr"
  by (simp add: captures_def)

lemma captures_bind:
  assumes "\<And>tr. captures (snd (m tr)) = captures tr + k"
      and "\<And>x tr. captures (snd (f x tr)) = captures tr"
  shows "captures (snd (bind_io m f tr)) = captures tr + k"
proof (cases "m tr")
  case (Pair r tr')
  then have k: "captures tr' = captures tr + k" using assms(1)[of tr] by simp
  show ?thesis
  proof (cases r)
    case (Inl e)
    then show ?thesis using Pair k by (simp add: bind_io_def)
  next
    case (Inr x)
    then show ?thesis using Pair k assms(2)[of x tr'] by (simp add: bind_io_def)
  qed
qed

lemma captures_bind0:
  assumes "\<And>tr. captures (snd (m tr)) = captures tr"
      and "\<And>x tr. captures (snd (f x tr)) = captures tr"
  shows "captures (snd (bind_io m f tr)) = captures tr"
  using captures_bind[of m 0 f tr] assms by simp

lemma captures_return: "captures (snd (return_io x tr)) = captures tr"
  by (simp add: return_io_def)

lemma captures_read: "captures (snd (bus_read_byte_data env a r tr)) = captures tr"
  by (simp add: bus_read_byte_data_def)

lemma captures_read_register: "captures (snd (read_register env self r tr)) = captures tr"
  by (simp add: read_register_def captures_read)

lemma captures_read16: "captures (snd (read_register_16bit env self r tr)) = captures tr"
  unfolding read_register_16bit_def
  by (intro captures_bind0 captures_read captures_return)

lemma captures_getters:
  "captures (snd (get_battery_voltage env self tr)) = captures tr"
  "captures (snd (get_battery_current env self tr)) = captures tr"
  "captures (snd (get_system_voltage env self tr)) = captures tr"
  "captures (snd (get_bus_voltage env self tr)) = captures tr"
  "captures (snd (get_bus_current env self tr)) = captures tr"
  "captures (snd (get_die_temperature env self tr)) = captures tr"
  unfolding get_battery_voltage_def get_battery_current_def get_system_voltage_def
    get_bus_voltage_def get_bus_current_def get_die_temperature_def
  by (intro captures_bind0 captures_read16 captures_return)+

lemma captures_status:
  "captures (snd (get_charger_status env self tr)) = captures tr"
  "captures (snd (get_fault_status env self tr)) = captures tr"
  unfolding get_charger_status_def get_fault_status_def Let_def
  by (intro captures_bind0 captures_read_register captures_return)+

lemma captures_time: "captures (snd (time_time_io env tr)) = captures tr"
  by (simp add: time_time_io_def)

lemma captures_enable_adc: "captures (snd (enable_adc env self tr)) = captures tr + 1"
  by (simp add: enable_adc_def write_register_def bus_write_byte_data_def bind_io_def
      time_sleep_def split: option.splits)

lemma captures_get_all_data: "captures (snd (get_all_data env self tr)) = captures tr + 1"
  unfolding get_all_data_def
  by (rule captures_bind[OF captures_enable_adc])
     (intro captures_bind0 captures_getters captures_status captures_time captures_return)

section \<open>The device instance and the health check\<close>

lemma get_bq_instance_Some:
  "bq_instance s = Some bq \<Longrightarrow> get_bq_instance env s = (Inr bq, s)"
  by (simp add: get_bq_instance_def)

lemma get_bq_instance_cache:
  "cache (snd (get_bq_instance env s)) = cache s"
  by (simp add: get_bq_instance_def BQ25790_init_def split: option.splits)

lemma get_bq_instance_Inr:
  "get_bq_instance env s = (Inr bq, s') \<Longrightarrow> bq_instance s' = Some bq \<and> cache s' = cache s"
  by (auto simp: get_bq_instance_def BQ25790_init_def split: option.splits)

lemma captures_get_bq_instance:
  "captures (world (snd (get_bq_instance env s))) = captures (world s)"
  by (simp add: get_bq_instance_def BQ25790_init_def split: option.splits)

text \<open>
  Claim C10: once the driver instance exists, \<^verbatim>\<open>GET /health\<close> answers 200 with the status
  \<^verbatim>\<open>"healthy"\<close> and leaves the whole state as it was; the trace of the outside world is
  part of the state, so no bus operation is issued. The environment is arbitrary: a bus
  that fails after the instance was created does not change the answer.
\<close>

theorem health_after_init:
  assumes "bq_instance s = Some bq"
  shows "health env s =
           ((PyDict [(''status'', PyStr ''healthy''),
                     (''service'', PyStr ''battery-monitor''),
                     (''i2c_address'', PyStr ''0x6B'')], 200), s)"
  by (simp add: health_def get_bq_instance_Some[OF assms])

text \<open>
  The same on a bus where every read raises.
\<close>

theorem health_after_init_witness:
  "read_byte_data (dead_bus) [] 0x6B 0x31 = Inl (PyException ''[Errno 121] Remote I/O error'') \<and>
   health (dead_bus) (initial_monitor\<lparr>bq_instance := Some bq0\<rparr>) =
     ((PyDict [(''status'', PyStr ''healthy''),
               (''service'', PyStr ''battery-monitor''),
               (''i2c_address'', PyStr ''0x6B'')], 200),
      initial_monitor\<lparr>bq_instance := Some bq0\<rparr>)"
proof -
  have h: "bq_instance (initial_monitor\<lparr>bq_instance := Some bq0\<rparr>) = Some bq0" by simp
  show ?thesis using health_after_init[OF h] by (simp add: dead_bus_def)
qed

section \<open>Single readings\<close>

text \<open>
  The handlers for a single reading never write to \<^verbatim>\<open>REG_ADC_CTRL\<close>, whatever the state
  and the bus.
\<close>

lemma captures_with_bq:
  assumes "\<And>bq tr. captures (snd (method bq tr)) = captures tr"
  shows "captures (world (snd (with_bq env method s))) = captures (world s)"
proof (cases "get_bq_instance env s")
  case (Pair r s1)
  have c: "captures (world s1) = captures (world s)"
    using captures_get_bq_instance[of env s] Pair by simp
  show ?thesis
  proof (cases r)
    case (Inl e)
    then show ?thesis using Pair c by (simp add: with_bq_def)
  next
    case (Inr bq)
    then show ?thesis
      using Pair c assms[of bq "world s1"]
      by (auto simp: with_bq_def split: prod.splits)
  qed
qed

lemma single_readings_enable_nothing:
  "captures (world (snd (get_voltage env s))) = captures (world s)"
  "captures (world (snd (get_current env s))) = captures (world s)"
  "captures (world (snd (get_temperature env s))) = captures (world s)"
proof -
  have v: "captures (world (snd (with_bq env (get_battery_voltage env) s))) = captures (world s)"
    by (rule captures_with_bq) (rule captures_getters)
  have i: "captures (world (snd (with_bq env (get_battery_current env) s))) = captures (world s)"
    by (rule captures_with_bq) (rule captures_getters)
  have t: "captures (world (snd (with_bq env (get_die_temperature env) s))) = captures (world s)"
    by (rule captures_with_bq) (rule captures_getters)
  show "captures (world (snd (get_voltage env s))) = captures (world s)"
    using v by (auto simp: get_voltage_def split: prod.splits sum.splits)
  show "captures (world (snd (get_current env s))) = captures (world s)"
    using i by (auto simp: get_current_def split: prod.splits sum.splits)
  show "captures (world (snd (get_temperature env s))) = captures (world s)"
    using t by (auto simp: get_temperature_def split: prod.splits sum.splits)
qed

text \<open>
  Claim C6 does not hold of the code: on a service that has just started, with the chip's
  registers holding 4.000 V, \<^verbatim>\<open>GET /battery/voltage\<close> opens the bus and reads the two bytes
  of \<^verbatim>\<open>REG_VBAT_ADC\<close>. Nothing was written to \<^verbatim>\<open>REG_ADC_CTRL\<close> before, and no settling
  delay was taken: only \<^verbatim>\<open>get_all_data\<close> calls \<^verbatim>\<open>enable_adc\<close>.
\<close>

theorem get_voltage_reads_without_enable_adc:
  "get_voltage (register_bus (regs_of [(0x31, 0x0F), (0x32, 0xA0)])) initial_monitor =
     ((PyDict [(''voltage'', PyFloat 4.0), (''unit'', PyStr ''V'')], 200),
      initial_monitor\<lparr>bq_instance := Some bq0,
        world := [SMBusOpen 1, ReadByteData 0x6B 0x31, ReadByteData 0x6B 0x32]\<rparr>) \<and>
   captures [SMBusOpen 1, ReadByteData 0x6B 0x31, ReadByteData 0x6B 0x32] = 0"
  by (simp add: get_voltage_def with_bq_def get_bq_instance_def BQ25790_init_def
      initial_monitor_def get_battery_voltage_def read_register_16bit_def bind_io_def
      bus_read_byte_data_def return_io_def register_bus_def regs_of_def dict_get_def
      reg_defs bq0_def py_round_def round_half_even_def)

section \<open>The cache of the battery endpoint\<close>




text \<open>
  Claim C4: when the cache does not answer the request and the capture raises, the handler
  returns 500 with the JSON error body that carries the exception's message, and the new
  state differs from the old one only in the trace of the outside world (and in what
  \<^verbatim>\<open>get_bq_instance\<close> did): the cache is the one from before. A later request for which
  that entry is fresh is served from it.
\<close>

theorem failed_capture_keeps_cache:
  assumes miss: "\<not> cache_hit (time_time env (world s)) (cache s)"
      and inst: "get_bq_instance env (s\<lparr>world := world s @ [TimeTime]\<rparr>) = (Inr bq, s1)"
      and fail: "get_all_data env bq (world s1) = (Inl e, tr')"
  shows "get_battery_info env s =
           ((PyDict [(''error'', PyStr ''Failed to read battery data''),
                     (''details'', PyStr (str_of e))], 500), s1\<lparr>world := tr'\<rparr>) \<and>
         cache (snd (get_battery_info env s)) = cache s \<and>
         (\<forall>d. cache_data (cache s) = Some d \<and> cache_hit (time_time env tr') (cache s) \<longrightarrow>
              fst (get_battery_info env (snd (get_battery_info env s))) = (d, 200))"
proof -
  let ?s0 = "s\<lparr>world := world s @ [TimeTime]\<rparr>"
  have c1: "cache s1 = cache s"
    using get_bq_instance_Inr[OF inst] by simp
  have r: "refresh env (time_time env (world s)) ?s0 = (error_500 e, s1\<lparr>world := tr'\<rparr>)"
    using inst fail by (simp add: refresh_def with_bq_def)
  have g: "get_battery_info env s = (error_500 e, s1\<lparr>world := tr'\<rparr>)"
    using miss r by (simp add: get_battery_info_def Let_def split: option.splits)
  have later: "fst (get_battery_info env (s1\<lparr>world := tr'\<rparr>)) = (d, 200)"
    if "cache_data (cache s) = Some d" "cache_hit (time_time env tr') (cache s)" for d
    using that c1 by (simp add: get_battery_info_def Let_def)
  show ?thesis using g c1 later by (simp add: error_500_def)
qed

text \<open>
  A run of it: the cache holds a snapshot taken at time 10; a request at 11.5 finds it
  stale, and the capture fails at the first read; the wall clock is then set back, and the
  next request, at 10.5, is served the old snapshot.
\<close>

theorem failed_capture_keeps_cache_witness:
  "get_battery_info (with_clock (scripted_clock [11.5, 10.5]) dead_bus) stale_monitor =
     ((PyDict [(''error'', PyStr ''Failed to read battery data''),
               (''details'', PyStr ''[Errno 121] Remote I/O error'')], 500),
      stale_monitor\<lparr>world :=
        [TimeTime, WriteByteData 0x6B 0x25 0x80, Sleep 0.1, ReadByteData 0x6B 0x31]\<rparr>) \<and>
   cache (snd (get_battery_info (with_clock (scripted_clock [11.5, 10.5]) dead_bus) stale_monitor))
     = cache stale_monitor \<and>
   fst (get_battery_info (with_clock (scripted_clock [11.5, 10.5]) dead_bus)
         (snd (get_battery_info (with_clock (scripted_clock [11.5, 10.5]) dead_bus) stale_monitor)))
     = (sample_snapshot (- 1.0) 9.9, 200)"
proof -
  let ?env = "with_clock (scripted_clock [11.5, 10.5]) dead_bus"
  let ?tr = "[TimeTime, WriteByteData 0x6B 0x25 0x80, Sleep 0.1, ReadByteData 0x6B 0x31]"
  have miss: "\<not> cache_hit (time_time ?env (world stale_monitor)) (cache stale_monitor)"
    by (simp add: cache_hit_def stale_monitor_def with_clock_def scripted_clock_def
        cache_timeout_def)
  have inst: "get_bq_instance ?env (stale_monitor\<lparr>world := world stale_monitor @ [TimeTime]\<rparr>)
      = (Inr bq0, stale_monitor\<lparr>world := [TimeTime]\<rparr>)"
    by (simp add: get_bq_instance_def stale_monitor_def)
  have fail: "get_all_data ?env bq0 (world (stale_monitor\<lparr>world := [TimeTime]\<rparr>)) =
      (Inl (PyException ''[Errno 121] Remote I/O error''), ?tr)"
    by (simp add: dead_capture)
  have d: "cache_data (cache stale_monitor) = Some (sample_snapshot (- 1.0) 9.9)"
    by (simp add: stale_monitor_def)
  have hit: "cache_hit (time_time ?env ?tr) (cache stale_monitor)"
    by (simp add: cache_hit_def stale_monitor_def with_clock_def scripted_clock_def
        cache_timeout_def)
  note th = failed_capture_keeps_cache[OF miss inst fail]
  have a: "get_battery_info ?env stale_monitor =
     ((PyDict [(''error'', PyStr ''Failed to read battery data''),
               (''details'', PyStr ''[Errno 121] Remote I/O error'')], 500),
      stale_monitor\<lparr>world := ?tr\<rparr>)"
    using th[THEN conjunct1] by simp
  have b: "cache (snd (get_battery_info ?env stale_monitor)) = cache stale_monitor"
    by (rule th[THEN conjunct2, THEN conjunct1])
  have c: "fst (get_battery_info ?env (snd (get_battery_info ?env stale_monitor)))
      = (sample_snapshot (- 1.0) 9.9, 200)"
    by (rule th[THEN conjunct2, THEN conjunct2, rule_format, OF conjI[OF d hit]])
  show ?thesis
    by (intro conjI a b c)
qed



section \<open>The trace of a capture\<close>







































section \<open>The power fields of a snapshot\<close>








section \<open>The lock and the cache under concurrent requests\<close>

text \<open>
  One request running alone goes through the steps of the model to the response and the
  state that \<^verbatim>\<open>get_battery_info\<close> gives.
\<close>

lemma run_append:
  "run env (xs @ ys) sys = (case run env xs sys of None \<Rightarrow> None | Some sys' \<Rightarrow> run env ys sys')"
  by (induction xs arbitrary: sys) (auto split: option.splits)

lemma step_alone_miss:
  assumes "\<not> (cache_data (cache m) \<noteq> None \<and> cache_hit (time_time env (world m)) (cache m))"
  shows "run env [i, i, i, i, i] (idle_system m) =
     Some \<lparr>mon = snd (refresh env (time_time env (world m)) (m\<lparr>world := world m @ [TimeTime]\<rparr>)),
           bq_lock = None,
           pcs = (\<lambda>j. Idle)(i := Done (fst (refresh env (time_time env (world m))
                                            (m\<lparr>world := world m @ [TimeTime]\<rparr>))))\<rparr>"
proof -
  let ?now = "time_time env (world m)"
  let ?m1 = "m\<lparr>world := world m @ [TimeTime]\<rparr>"
  obtain r m2 where w: "with_bq env (get_all_data env) ?m1 = (r, m2)"
    by (cases "with_bq env (get_all_data env) ?m1")
  have s1: "step env i (idle_system m) =
      Some \<lparr>mon = ?m1, bq_lock = None, pcs = (\<lambda>j. Idle)(i := WaitLock ?now)\<rparr>"
    using assms by (auto simp: step_def idle_system_def Let_def split: option.splits)
  have s2: "step env i \<lparr>mon = ?m1, bq_lock = None, pcs = (\<lambda>j. Idle)(i := WaitLock ?now)\<rparr> =
      Some \<lparr>mon = ?m1, bq_lock = Some i, pcs = (\<lambda>j. Idle)(i := InLock ?now)\<rparr>"
    by (simp add: step_def)
  have s3: "step env i \<lparr>mon = ?m1, bq_lock = Some i, pcs = (\<lambda>j. Idle)(i := InLock ?now)\<rparr> =
      Some \<lparr>mon = m2, bq_lock = Some i, pcs = (\<lambda>j. Idle)(i := Captured ?now r)\<rparr>"
    by (simp add: step_def w)
  have s4: "step env i \<lparr>mon = m2, bq_lock = Some i, pcs = (\<lambda>j. Idle)(i := Captured ?now r)\<rparr> =
      Some \<lparr>mon = m2, bq_lock = None, pcs = (\<lambda>j. Idle)(i := Released ?now r)\<rparr>"
    by (simp add: step_def)
  have s5: "step env i \<lparr>mon = m2, bq_lock = None, pcs = (\<lambda>j. Idle)(i := Released ?now r)\<rparr> =
      Some \<lparr>mon = snd (refresh env ?now ?m1), bq_lock = None,
            pcs = (\<lambda>j. Idle)(i := Done (fst (refresh env ?now ?m1)))\<rparr>"
    by (cases r) (simp_all add: step_def refresh_def w)
  show ?thesis
    by (simp add: s1 s2 s3 s4 s5)
qed

lemma step_alone_hit:
  assumes "cache_data (cache m) = Some data" and "cache_hit (time_time env (world m)) (cache m)"
  shows "run env [i] (idle_system m) =
     Some \<lparr>mon = m\<lparr>world := world m @ [TimeTime]\<rparr>, bq_lock = None,
           pcs = (\<lambda>j. Idle)(i := Done (data, 200))\<rparr>"
  using assms by (simp add: step_def idle_system_def Let_def)

lemma request_alone:
  "\<exists>n. run env (replicate n i) (idle_system m) =
     Some \<lparr>mon = snd (get_battery_info env m), bq_lock = None,
           pcs = (\<lambda>j. Idle)(i := Done (fst (get_battery_info env m)))\<rparr>"
proof (cases "cache_data (cache m) \<noteq> None \<and> cache_hit (time_time env (world m)) (cache m)")
  case True
  then obtain data where d: "cache_data (cache m) = Some data" by auto
  have "run env (replicate 1 i) (idle_system m) =
     Some \<lparr>mon = snd (get_battery_info env m), bq_lock = None,
           pcs = (\<lambda>j. Idle)(i := Done (fst (get_battery_info env m)))\<rparr>"
    using step_alone_hit[OF d, of env i] True d
    by (simp add: get_battery_info_def Let_def)
  then show ?thesis by blast
next
  case False
  have "run env (replicate 5 i) (idle_system m) =
     Some \<lparr>mon = snd (get_battery_info env m), bq_lock = None,
           pcs = (\<lambda>j. Idle)(i := Done (fst (get_battery_info env m)))\<rparr>"
    using step_alone_miss[OF False, of i] False
    by (auto simp: get_battery_info_def Let_def numeral_eq_Suc split: option.splits)
  then show ?thesis by blast
qed

text \<open>
  A request is inside the block exactly when it is the holder of the lock, and a step
  that issues a capture is a step of a request inside the block.
\<close>

lemma lock_inv_idle: "lock_inv (idle_system m)"
  by (simp add: lock_inv_def idle_system_def)

lemma lock_inv_step:
  assumes "lock_inv sys" and "step env i sys = Some sys'"
  shows "lock_inv sys'"
proof -
  have hi: "holding (pcs sys i) = (bq_lock sys = Some i)"
    using assms(1) by (simp add: lock_inv_def)
  have hj: "holding (pcs sys j) = (bq_lock sys = Some j)" for j
    using assms(1) by (simp add: lock_inv_def)
  have "holding (pcs sys' j) = (bq_lock sys' = Some j)" for j
  proof (cases "pcs sys i")
    case Idle
    then show ?thesis using assms(2) hi hj[of j]
      by (auto simp: step_def Let_def split: option.splits if_splits)
  next
    case (WaitLock now)
    then show ?thesis using assms(2) hi hj[of j]
      by (auto simp: step_def split: option.splits if_splits)
  next
    case (InLock now)
    then show ?thesis using assms(2) hi hj[of j]
      by (auto simp: step_def split: prod.splits if_splits)
  next
    case (Captured now r)
    then show ?thesis using assms(2) hi hj[of j]
      by (auto simp: step_def split: if_splits)
  next
    case (Released now r)
    then show ?thesis using assms(2) hi hj[of j]
      by (cases r) (auto simp: step_def split: if_splits)
  next
    case (Done resp)
    then show ?thesis using assms(2) by (simp add: step_def)
  qed
  then show ?thesis by (simp add: lock_inv_def)
qed

lemma lock_inv_run:
  "lock_inv sys \<Longrightarrow> run env sched sys = Some sys' \<Longrightarrow> lock_inv sys'"
proof (induction sched arbitrary: sys)
  case Nil
  then show ?case by simp
next
  case (Cons i sched)
  then show ?case
    by (auto split: option.splits dest: lock_inv_step)
qed

lemma step_io_needs_lock:
  assumes "step env i sys = Some sys'" and "captures (world (mon sys')) \<noteq> captures (world (mon sys))"
  shows "\<exists>now. pcs sys i = InLock now"
  using assms
  by (cases "pcs sys i")
     (auto simp: step_def Let_def captures_def split: option.splits if_splits sum.splits)

lemma step_device_needs_lock:
  assumes "step env i sys = Some sys'"
      and "device_events (world (mon sys')) \<noteq> device_events (world (mon sys))"
  shows "\<exists>now. pcs sys i = InLock now"
  using assms
  by (cases "pcs sys i")
     (auto simp: step_def Let_def device_events_def split: option.splits if_splits sum.splits)

text \<open>
  Claim C8, as the code has it: in every state that concurrent requests to \<^verbatim>\<open>/battery\<close> can
  reach, at most one request is inside \<^verbatim>\<open>with bq_lock\<close>, and every step that does anything
  to the bus (or takes the settling delay), in particular every step that issues a capture,
  is taken by the request that holds the lock; so all device I/O is serialized behind the
  lock and at most one capture is in flight. The cache is tested only before the lock is
  requested: a request that holds the lock issues its capture whatever the cache holds by
  then (the driver instance being there).
\<close>

theorem capture_under_lock:
  assumes "run env sched (idle_system m) = Some sys"
  shows "(\<forall>i j. holding (pcs sys i) \<and> holding (pcs sys j) \<longrightarrow> i = j) \<and>
         (\<forall>i sys'. step env i sys = Some sys' \<and>
              device_events (world (mon sys')) \<noteq> device_events (world (mon sys)) \<longrightarrow>
              bq_lock sys = Some i \<and> holding (pcs sys i)) \<and>
         (\<forall>i sys'. step env i sys = Some sys' \<and> capture_count sys' \<noteq> capture_count sys \<longrightarrow>
              bq_lock sys = Some i \<and> holding (pcs sys i)) \<and>
         (\<forall>i now sys'. pcs sys i = InLock now \<and> bq_instance (mon sys) \<noteq> None \<and>
              step env i sys = Some sys' \<longrightarrow> capture_count sys' = capture_count sys + 1)"
proof -
  have inv: "lock_inv sys"
    using lock_inv_run[OF lock_inv_idle assms] .
  have a: "i = j" if "holding (pcs sys i)" "holding (pcs sys j)" for i j
    using inv that by (simp add: lock_inv_def)
  have t: "bq_lock sys = Some i \<and> holding (pcs sys i)"
    if "step env i sys = Some sys'"
       "device_events (world (mon sys')) \<noteq> device_events (world (mon sys))" for i sys'
  proof -
    from step_device_needs_lock[OF that] obtain now where "pcs sys i = InLock now" by blast
    then have "holding (pcs sys i)" by simp
    then show ?thesis using inv by (simp add: lock_inv_def)
  qed
  have b: "bq_lock sys = Some i \<and> holding (pcs sys i)"
    if "step env i sys = Some sys'" "capture_count sys' \<noteq> capture_count sys" for i sys'
  proof -
    from step_io_needs_lock[of env i sys sys'] that obtain now where "pcs sys i = InLock now"
      by (auto simp: capture_count_def)
    then have "holding (pcs sys i)" by simp
    then show ?thesis using inv by (simp add: lock_inv_def)
  qed
  have c: "capture_count sys' = capture_count sys + 1"
    if "pcs sys i = InLock now" "bq_instance (mon sys) \<noteq> None" "step env i sys = Some sys'"
    for i now sys'
  proof -
    from that(2) obtain bq where bq: "bq_instance (mon sys) = Some bq" by auto
    obtain r tr where g: "get_all_data env bq (world (mon sys)) = (r, tr)"
      by (cases "get_all_data env bq (world (mon sys))")
    have "captures tr = captures (world (mon sys)) + 1"
      using captures_get_all_data[of env bq "world (mon sys)"] g by simp
    then show ?thesis
      using that(1,3) g
      by (auto simp: step_def with_bq_def get_bq_instance_Some[OF bq] capture_count_def)
  qed
  show ?thesis using a t b c by blast
qed

text \<open>
  Two requests: the first holds the lock, the second has missed the cache and waits.
\<close>

lemma time_calls_capture [simp]:
  "filter is_time_call (capture_events a) = [TimeTime]"
  "filter is_time_call (butlast (capture_events a)) = []"
  by (simp_all add: capture_events_def read16_def)

lemma captures_capture_events [simp]: "captures (capture_events a) = 1"
  by (simp add: capture_events_def read16_def captures_def reg_defs)

lemma burst_run_queued:
  "run burst_env [0, 0, 1] (idle_system initial_monitor) =
     Some \<lparr>mon = initial_monitor\<lparr>world := [TimeTime, TimeTime]\<rparr>,
           bq_lock = Some 0,
           pcs = (\<lambda>i. Idle)(0 := InLock 0, 1 := WaitLock 0.05)\<rparr>"
  by (simp add: step_def idle_system_def initial_monitor_def empty_cache_def Let_def
      burst_env_def with_clock_def scripted_clock_def fun_eq_iff)

theorem capture_under_lock_witness:
  "run burst_env [0, 0, 1] (idle_system initial_monitor) =
     Some \<lparr>mon = initial_monitor\<lparr>world := [TimeTime, TimeTime]\<rparr>,
           bq_lock = Some 0,
           pcs = (\<lambda>i. Idle)(0 := InLock 0, 1 := WaitLock 0.05)\<rparr> \<and>
   holding (pc_of 0 \<lparr>mon = initial_monitor\<lparr>world := [TimeTime, TimeTime]\<rparr>,
           bq_lock = Some 0,
           pcs = (\<lambda>i. Idle)(0 := InLock 0, 1 := WaitLock 0.05)\<rparr>) \<and>
   \<not> holding (pc_of 1 \<lparr>mon = initial_monitor\<lparr>world := [TimeTime, TimeTime]\<rparr>,
           bq_lock = Some 0,
           pcs = (\<lambda>i. Idle)(0 := InLock 0, 1 := WaitLock 0.05)\<rparr>)"
proof -
  let ?sys = "\<lparr>mon = initial_monitor\<lparr>world := [TimeTime, TimeTime]\<rparr>,
           bq_lock = Some 0,
           pcs = (\<lambda>i. Idle)(0 := InLock 0, 1 := WaitLock 0.05)\<rparr>"
  note th = capture_under_lock[OF burst_run_queued, THEN conjunct1, rule_format, of 1 0]
  have h0: "holding (pcs ?sys 0)" by simp
  have "\<not> holding (pcs ?sys 1)"
  proof
    assume "holding (pcs ?sys 1)"
    with h0 th have "(1::nat) = 0" by blast
    then show False by simp
  qed
  then show ?thesis using h0 burst_run_queued by (simp add: pc_of_def)
qed

text \<open>
  The claim as it was written fails: there is no second test of the cache after the lock
  is taken. Request 0 takes the lock; request 1 finds the cache empty at 0.05 s and is
  blocked at the lock; request 0 captures, releases the lock and stores its snapshot with
  timestamp 0, which is fresh for a request at 0.05 s. Request 1 then takes the lock and
  captures again: two captures, and request 1 answers with its own snapshot.
\<close>

lemma with_bq_sample_first:
  assumes "bq_instance m = None"
  shows "with_bq (with_clock clock (register_bus sample_regs))
           (get_all_data (with_clock clock (register_bus sample_regs))) m =
     (Inr (sample_snapshot (- 1.0) (clock (world m @ SMBusOpen 1 # butlast (capture_events 0x6B)))),
      m\<lparr>bq_instance := Some bq0, last_error := None,
        world := world m @ SMBusOpen 1 # capture_events 0x6B\<rparr>)"
proof -
  have init: "BQ25790_init (with_clock clock (register_bus sample_regs)) 1 0x6B (world m) =
      (Inr bq0, world m @ [SMBusOpen 1])"
    by (simp add: BQ25790_init_def with_clock_def register_bus_def bq0_def)
  show ?thesis
    using assms by (simp add: with_bq_def get_bq_instance_def init sample_run_at)
qed

lemma with_bq_sample_again:
  assumes "bq_instance m = Some bq0"
  shows "with_bq (with_clock clock (register_bus sample_regs))
           (get_all_data (with_clock clock (register_bus sample_regs))) m =
     (Inr (sample_snapshot (- 1.0) (clock (world m @ butlast (capture_events 0x6B)))),
      m\<lparr>world := world m @ capture_events 0x6B\<rparr>)"
  using assms by (simp add: with_bq_def get_bq_instance_def sample_run_at)

lemma burst_run_refreshed:
  "run burst_env [0, 0, 0]
     \<lparr>mon = initial_monitor\<lparr>world := [TimeTime, TimeTime]\<rparr>,
      bq_lock = Some 0,
      pcs = (\<lambda>i. Idle)(0 := InLock 0, 1 := WaitLock 0.05)\<rparr> =
     Some \<lparr>mon = \<lparr>bq_instance = Some bq0, last_error = None,
                   cache = \<lparr>cache_data = Some (sample_snapshot (- 1.0) 0.2),
                            cache_timestamp = Some 0\<rparr>,
                   world = [TimeTime, TimeTime, SMBusOpen 1] @ capture_events 0x6B\<rparr>,
           bq_lock = None,
           pcs = (\<lambda>i. Idle)(0 := Done (sample_snapshot (- 1.0) 0.2, 200), 1 := WaitLock 0.05)\<rparr>"
  by (simp add: step_def burst_env_def with_bq_sample_first initial_monitor_def empty_cache_def
      scripted_clock_def fun_eq_iff)

lemma burst_run_second_capture:
  "run burst_env [1, 1, 1, 1]
     \<lparr>mon = \<lparr>bq_instance = Some bq0, last_error = None,
             cache = \<lparr>cache_data = Some (sample_snapshot (- 1.0) 0.2),
                      cache_timestamp = Some 0\<rparr>,
             world = [TimeTime, TimeTime, SMBusOpen 1] @ capture_events 0x6B\<rparr>,
      bq_lock = None,
      pcs = (\<lambda>i. Idle)(0 := Done (sample_snapshot (- 1.0) 0.2, 200), 1 := WaitLock 0.05)\<rparr> =
     Some \<lparr>mon = \<lparr>bq_instance = Some bq0, last_error = None,
                   cache = \<lparr>cache_data = Some (sample_snapshot (- 1.0) 0.4),
                            cache_timestamp = Some 0.05\<rparr>,
                   world = [TimeTime, TimeTime, SMBusOpen 1] @ capture_events 0x6B
                             @ capture_events 0x6B\<rparr>,
           bq_lock = None,
           pcs = (\<lambda>i. Idle)(0 := Done (sample_snapshot (- 1.0) 0.2, 200),
                               1 := Done (sample_snapshot (- 1.0) 0.4, 200))\<rparr>"
  by (simp add: step_def burst_env_def with_bq_sample_again scripted_clock_def fun_eq_iff)

theorem recheck_after_lock_counterexample:
  "run burst_env [0, 0, 1] (idle_system initial_monitor) \<noteq> None \<and>
   Option.bind (run burst_env [0, 0, 1] (idle_system initial_monitor)) (step burst_env 1) = None \<and>
   map_option (pc_of 1) (run burst_env [0, 0, 1, 0, 0, 0] (idle_system initial_monitor)) =
     Some (WaitLock 0.05) \<and>
   map_option cache_of (run burst_env [0, 0, 1, 0, 0, 0] (idle_system initial_monitor)) =
     Some \<lparr>cache_data = Some (sample_snapshot (- 1.0) 0.2), cache_timestamp = Some 0\<rparr> \<and>
   cache_hit 0.05 \<lparr>cache_data = Some (sample_snapshot (- 1.0) 0.2), cache_timestamp = Some 0\<rparr> \<and>
   map_option capture_count (run burst_env [0, 0, 1, 0, 0, 0] (idle_system initial_monitor)) = Some 1 \<and>
   map_option capture_count
     (run burst_env [0, 0, 1, 0, 0, 0, 1, 1, 1, 1] (idle_system initial_monitor)) = Some 2 \<and>
   map_option (pc_of 1)
     (run burst_env [0, 0, 1, 0, 0, 0, 1, 1, 1, 1] (idle_system initial_monitor)) =
     Some (Done (sample_snapshot (- 1.0) 0.4, 200))"
proof -
  have r6: "run burst_env [0, 0, 1, 0, 0, 0] (idle_system initial_monitor) =
     Some \<lparr>mon = \<lparr>bq_instance = Some bq0, last_error = None,
                   cache = \<lparr>cache_data = Some (sample_snapshot (- 1.0) 0.2),
                            cache_timestamp = Some 0\<rparr>,
                   world = [TimeTime, TimeTime, SMBusOpen 1] @ capture_events 0x6B\<rparr>,
           bq_lock = None,
           pcs = (\<lambda>i. Idle)(0 := Done (sample_snapshot (- 1.0) 0.2, 200), 1 := WaitLock 0.05)\<rparr>"
  proof -
    have x: "[0, 0, 1, 0, 0, 0] = [0, 0, 1] @ [0, 0, 0::nat]" by simp
    show ?thesis
      by (subst x, subst run_append, subst burst_run_queued, simp only: option.case,
          rule burst_run_refreshed)
  qed
  have r10: "run burst_env [0, 0, 1, 0, 0, 0, 1, 1, 1, 1] (idle_system initial_monitor) =
     Some \<lparr>mon = \<lparr>bq_instance = Some bq0, last_error = None,
                   cache = \<lparr>cache_data = Some (sample_snapshot (- 1.0) 0.4),
                            cache_timestamp = Some 0.05\<rparr>,
                   world = [TimeTime, TimeTime, SMBusOpen 1] @ capture_events 0x6B
                             @ capture_events 0x6B\<rparr>,
           bq_lock = None,
           pcs = (\<lambda>i. Idle)(0 := Done (sample_snapshot (- 1.0) 0.2, 200),
                               1 := Done (sample_snapshot (- 1.0) 0.4, 200))\<rparr>"
  proof -
    have x: "[0, 0, 1, 0, 0, 0, 1, 1, 1, 1] = [0, 0, 1, 0, 0, 0] @ [1, 1, 1, 1::nat]" by simp
    show ?thesis
      by (subst x, subst run_append, subst r6, simp only: option.case,
          rule burst_run_second_capture)
  qed
  have q: "step burst_env 1
      \<lparr>mon = initial_monitor\<lparr>world := [TimeTime, TimeTime]\<rparr>,
       bq_lock = Some 0,
       pcs = (\<lambda>i. Idle)(0 := InLock 0, 1 := WaitLock 0.05)\<rparr> = None"
    by (simp add: step_def)
  have a: "run burst_env [0, 0, 1] (idle_system initial_monitor) \<noteq> None"
    by (simp only: burst_run_queued) simp
  have b: "Option.bind (run burst_env [0, 0, 1] (idle_system initial_monitor)) (step burst_env 1) = None"
    by (simp only: burst_run_queued bind.simps q)
  have c: "map_option (pc_of 1) (run burst_env [0, 0, 1, 0, 0, 0] (idle_system initial_monitor)) =
     Some (WaitLock 0.05)"
    by (simp only: r6) (simp add: pc_of_def)
  have d: "map_option cache_of (run burst_env [0, 0, 1, 0, 0, 0] (idle_system initial_monitor)) =
     Some \<lparr>cache_data = Some (sample_snapshot (- 1.0) 0.2), cache_timestamp = Some 0\<rparr>"
    by (simp only: r6) (simp add: cache_of_def)
  have e: "cache_hit 0.05 \<lparr>cache_data = Some (sample_snapshot (- 1.0) 0.2), cache_timestamp = Some 0\<rparr>"
    by (simp add: cache_hit_def cache_timeout_def)
  have f: "map_option capture_count (run burst_env [0, 0, 1, 0, 0, 0] (idle_system initial_monitor)) = Some 1"
    by (simp only: r6) (simp add: capture_count_def)
  have g: "map_option capture_count
     (run burst_env [0, 0, 1, 0, 0, 0, 1, 1, 1, 1] (idle_system initial_monitor)) = Some 2"
    by (simp only: r10) (simp add: capture_count_def)
  have h: "map_option (pc_of 1)
     (run burst_env [0, 0, 1, 0, 0, 0, 1, 1, 1, 1] (idle_system initial_monitor)) =
     Some (Done (sample_snapshot (- 1.0) 0.4, 200))"
    by (simp only: r10) (simp add: pc_of_def)
  show ?thesis by (intro conjI a b c d e f g h)
qed

end
